theory Spec2Isabelle
  imports Complex_Main "HOL-Library.Word" "HOL-Library.Signed_Division"
begin

section \<open>The POSIX representation of mu\_time\<close>

text \<open>
  The module under study is \<^verbatim>\<open>src/platform/mu_time_posix.c\<close> with the types of
  \<^verbatim>\<open>inc/platform/mu_time_posix.h\<close>, the representation that \<^verbatim>\<open>mu_time_impl.h\<close>
  selects on Linux and macOS. On these LP64 targets \<^verbatim>\<open>time_t\<close>, \<^verbatim>\<open>long\<close> and
  \<^verbatim>\<open>int64_t\<close> are signed 64-bit integers and \<^verbatim>\<open>uint32_t\<close> is \<^verbatim>\<open>unsigned int\<close>.

  A signed 64-bit integer is a \<^typ>\<open>64 word\<close> read through \<^const>\<open>sint\<close>. Addition,
  subtraction and multiplication are the two's complement operations of the machine,
  so they wrap around; the comparisons of the source are the signed ones, \<open><s\<close> and
  \<open>\<le>s\<close>. C itself leaves a signed overflow undefined: where a sum or a product of the
  module leaves the 64-bit range, the model gives the value that the two's complement
  instructions of these targets compute.
\<close>

type_synonym int64_t = "64 word"
type_synonym uint32_t = "32 word"
type_synonym time_t = "64 word"
type_synonym long = "64 word"

text \<open>
  The operators \<^verbatim>\<open>/\<close> and \<^verbatim>\<open>%\<close> of C on \<^verbatim>\<open>int64_t\<close>: the quotient is truncated
  toward zero and the remainder takes the sign of the dividend. Every division of the
  module has a positive constant as its divisor, so neither a zero divisor nor the
  quotient \<^verbatim>\<open>INT64_MIN / -1\<close> occurs.
\<close>

definition c_div :: "int64_t \<Rightarrow> int64_t \<Rightarrow> int64_t" where
  "c_div a b = word_of_int (sint a sdiv sint b)"

definition c_mod :: "int64_t \<Rightarrow> int64_t \<Rightarrow> int64_t" where
  "c_mod a b = word_of_int (sint a smod sint b)"

text \<open>\<^verbatim>\<open>mu_time_abs_t\<close>: seconds since the epoch and nanoseconds, documented as 0 - 999999999.\<close>

record mu_time_abs_t =
  seconds :: time_t
  nanoseconds :: long

text \<open>\<^verbatim>\<open>mu_time_rel_t\<close>: a signed count of nanoseconds.\<close>

type_synonym mu_time_rel_t = int64_t

text \<open>The range that the header documents for the nanoseconds field.\<close>

definition normalized :: "mu_time_abs_t \<Rightarrow> bool" where
  "normalized t = (0 \<le>s nanoseconds t \<and> nanoseconds t <s 1000000000)"

subsection \<open>Reading the clock\<close>

text \<open>
  \<^verbatim>\<open>struct timespec\<close> of the C library, and the call
  \<^verbatim>\<open>clock_gettime(CLOCK_REALTIME, &ts)\<close>. The primitive belongs to the host, not to the
  module, so it is a parameter: a function from the contents of the buffer before the
  call to the status it returns and the contents of the buffer after the call.
  \<^verbatim>\<open>mu_time_now\<close> passes the address of a local variable that it has not initialised;
  what that variable holds before the call is the second parameter.
\<close>

record timespec =
  tv_sec :: time_t
  tv_nsec :: long

type_synonym clock_gettime_t = "timespec \<Rightarrow> int \<times> timespec"

definition mu_time_now :: "clock_gettime_t \<Rightarrow> timespec \<Rightarrow> mu_time_abs_t" where
  "mu_time_now clock_gettime ts0 =
     (let (status, ts) = clock_gettime ts0
      in \<lparr>seconds = tv_sec ts, nanoseconds = tv_nsec ts\<rparr>)"

text \<open>Two hosts: a clock that succeeds and writes the time \<open>t\<close>, and a clock that fails
  with status \<open>-1\<close> and leaves the buffer as it found it.\<close>

definition clock_ok :: "timespec \<Rightarrow> clock_gettime_t" where
  "clock_ok t = (\<lambda>ts0. (0, t))"

definition clock_failed :: clock_gettime_t where
  "clock_failed = (\<lambda>ts0. (-1, ts0))"

subsection \<open>Arithmetic and comparison\<close>

definition mu_time_rel_max :: mu_time_rel_t where
  "mu_time_rel_max = 9223372036854775807"

definition mu_time_offset :: "mu_time_abs_t \<Rightarrow> mu_time_rel_t \<Rightarrow> mu_time_abs_t" where
  "mu_time_offset base delta =
     (let result = \<lparr>seconds = seconds base + c_div delta 1000000000,
                     nanoseconds = nanoseconds base + c_mod delta 1000000000\<rparr>
      in if 1000000000 \<le>s nanoseconds result
         then \<lparr>seconds = seconds result + 1,
               nanoseconds = nanoseconds result - 1000000000\<rparr>
         else result)"

definition mu_time_difference :: "mu_time_abs_t \<Rightarrow> mu_time_abs_t \<Rightarrow> mu_time_rel_t" where
  "mu_time_difference a b =
     (seconds b - seconds a) * 1000000000 + (nanoseconds b - nanoseconds a)"

definition mu_time_is_before :: "mu_time_abs_t \<Rightarrow> mu_time_abs_t \<Rightarrow> bool" where
  "mu_time_is_before a b =
     (seconds a <s seconds b \<or> (seconds a = seconds b \<and> nanoseconds a <s nanoseconds b))"

definition mu_time_is_after :: "mu_time_abs_t \<Rightarrow> mu_time_abs_t \<Rightarrow> bool" where
  "mu_time_is_after a b =
     (seconds b <s seconds a \<or> (seconds a = seconds b \<and> nanoseconds b <s nanoseconds a))"

subsection \<open>Conversions between milliseconds and relative time\<close>

text \<open>
  In \<^verbatim>\<open>(mu_time_rel_t)(milliseconds * 1000000)\<close> the operands of the product are a
  \<^verbatim>\<open>uint32_t\<close> and an \<^verbatim>\<open>int\<close>, so the product is computed in \<^verbatim>\<open>unsigned int\<close>, modulo
  \<open>2 ^ 32\<close>, and only then widened to 64 bits, preserving its value. In
  \<^verbatim>\<open>(uint32_t)(delta_t / 1000000)\<close> the signed 64-bit quotient is converted to
  \<^verbatim>\<open>uint32_t\<close>, which keeps its low 32 bits.
\<close>

definition mu_time_rel_from_millis :: "uint32_t \<Rightarrow> mu_time_rel_t" where
  "mu_time_rel_from_millis milliseconds = ucast (milliseconds * 1000000)"

definition mu_time_rel_to_millis :: "mu_time_rel_t \<Rightarrow> uint32_t" where
  "mu_time_rel_to_millis delta_t = ucast (c_div delta_t 1000000)"

subsection \<open>Conversion from floating-point seconds\<close>

text \<open>
  The type \<^verbatim>\<open>float\<close> of these targets is IEEE 754 binary32, and an expression of type
  \<^verbatim>\<open>float\<close> is evaluated in that format. A value is a finite real number with a
  significand of 24 bits, an infinity, or a NaN. The sign of a zero is not kept: the
  conversion to an integer gives 0 for both zeros.
\<close>

datatype float32 = Finite real | PlusInf | MinusInf | NaN

text \<open>The number of binary digits of a positive integer.\<close>

function bit_length :: "int \<Rightarrow> nat" where
  "bit_length k = (if k \<le> 0 then 0 else Suc (bit_length (k div 2)))"
  by pat_completeness auto
termination
  by (relation "measure nat") auto

text \<open>
  The distance between neighbouring binary32 values around \<open>y\<close>. Scaled by \<open>2 ^ 149\<close>
  every finite binary32 value is an integer. A scaled magnitude of at most 24 digits
  (the subnormal numbers and the lowest binade of the normal ones) has spacing 1, and
  each further digit doubles the spacing: for \<open>2 ^ e \<le> \<bar>y\<bar> < 2 ^ (e + 1)\<close> the
  spacing is \<open>2 ^ (e - 23)\<close>.
\<close>

definition ulp32 :: "real \<Rightarrow> real" where
  "ulp32 y = 2 ^ (bit_length \<lfloor>\<bar>y\<bar> * 2 ^ 149\<rfloor> - 24) / 2 ^ 149"

text \<open>Rounding to the nearest integer, a tie going to the even one.\<close>

definition round_even :: "real \<Rightarrow> int" where
  "round_even r =
     (let f = \<lfloor>r\<rfloor>
      in if r - of_int f < 1 / 2 then f
         else if 1 / 2 < r - of_int f then f + 1
         else if even f then f else f + 1)"

text \<open>
  The default rounding of IEEE 754: the multiple of the spacing nearest to \<open>y\<close>, ties to
  the even significand, and an infinity when that multiple reaches \<open>2 ^ 128\<close>.
\<close>

definition nearest32 :: "real \<Rightarrow> real" where
  "nearest32 y = of_int (round_even (y / ulp32 y)) * ulp32 y"

definition round32 :: "real \<Rightarrow> float32" where
  "round32 y =
     (let r = nearest32 y
      in if 2 ^ 128 \<le> r then PlusInf else if r \<le> - (2 ^ 128) then MinusInf else Finite r)"

text \<open>A finite value belongs to the type when rounding leaves it unchanged.\<close>

fun is_float32 :: "float32 \<Rightarrow> bool" where
  "is_float32 (Finite x) = (round32 x = Finite x)"
| "is_float32 _ = True"

text \<open>The product of two \<^verbatim>\<open>float\<close> values: the exact product, rounded once.\<close>

fun float_sign :: "float32 \<Rightarrow> int" where
  "float_sign (Finite x) = (if x = 0 then 0 else if 0 < x then 1 else - 1)"
| "float_sign PlusInf = 1"
| "float_sign MinusInf = - 1"
| "float_sign NaN = 0"

fun float_mul :: "float32 \<Rightarrow> float32 \<Rightarrow> float32" where
  "float_mul (Finite x) (Finite y) = round32 (x * y)"
| "float_mul NaN b = NaN"
| "float_mul a NaN = NaN"
| "float_mul a b =
     (if float_sign a * float_sign b = 0 then NaN
      else if 0 < float_sign a * float_sign b then PlusInf else MinusInf)"

text \<open>
  The conversions of C between \<^verbatim>\<open>float\<close> and integers. An \<^verbatim>\<open>int\<close> operand of a
  \<^verbatim>\<open>float\<close> product is converted to \<^verbatim>\<open>float\<close>, with rounding. The cast to \<^verbatim>\<open>int64_t\<close>
  discards the fractional part; where the integral part is not an \<^verbatim>\<open>int64_t\<close>, and for
  an infinity or a NaN, C defines no result, which is \<open>None\<close> here.
\<close>

definition float_of_int :: "int \<Rightarrow> float32" where
  "float_of_int i = round32 (of_int i)"

definition trunc_zero :: "real \<Rightarrow> int" where
  "trunc_zero r = (if 0 \<le> r then \<lfloor>r\<rfloor> else \<lceil>r\<rceil>)"

fun float_to_int64 :: "float32 \<Rightarrow> int64_t option" where
  "float_to_int64 (Finite r) =
     (if - (2 ^ 63) \<le> trunc_zero r \<and> trunc_zero r < 2 ^ 63
      then Some (word_of_int (trunc_zero r)) else None)"
| "float_to_int64 _ = None"

definition mu_time_rel_from_seconds :: "float32 \<Rightarrow> mu_time_rel_t option" where
  "mu_time_rel_from_seconds delta_t =
     float_to_int64 (float_mul delta_t (float_of_int 1000000000))"

section \<open>Arithmetic of the model\<close>

subsection \<open>Truncating division on the integers\<close>

lemma sdiv_nonneg: "0 \<le> x \<Longrightarrow> 0 < k \<Longrightarrow> x sdiv k = x div (k :: int)"
  by (simp add: signed_divide_int_def sgn_if)

lemma sdiv_neg: "x < 0 \<Longrightarrow> 0 < k \<Longrightarrow> x sdiv k = - ((- x) div (k :: int))"
  by (simp add: signed_divide_int_def sgn_if)

lemma smod_nonneg: "0 \<le> x \<Longrightarrow> 0 < k \<Longrightarrow> x smod k = x mod (k :: int)"
  by (simp add: signed_modulo_int_def sgn_if)

lemma smod_neg: "x < 0 \<Longrightarrow> 0 < k \<Longrightarrow> x smod k = - ((- x) mod (k :: int))"
  by (simp add: signed_modulo_int_def sgn_if)

lemma div_pos_le: "0 \<le> x \<Longrightarrow> 0 < k \<Longrightarrow> x div k \<le> (x :: int)"
  using zdiv_mono2 [of x 1 k] by simp

text \<open>The truncated quotient lies between the dividend and zero.\<close>

lemma sdiv_pos_bounds:
  fixes x k :: int
  assumes "0 < k"
  shows "min x 0 \<le> x sdiv k \<and> x sdiv k \<le> max x 0"
proof (cases "0 \<le> x")
  case True
  have "0 \<le> x div k" using True assms by (simp add: pos_imp_zdiv_nonneg_iff)
  moreover have "x div k \<le> x" using True assms by (rule div_pos_le)
  moreover have "x sdiv k = x div k" using True assms by (rule sdiv_nonneg)
  ultimately show ?thesis using True by linarith
next
  case False
  then have neg: "x < 0" by simp
  have "0 \<le> (- x) div k" using neg assms by (simp add: pos_imp_zdiv_nonneg_iff)
  moreover have "(- x) div k \<le> - x" using neg assms by (intro div_pos_le) simp_all
  moreover have "x sdiv k = - ((- x) div k)" using neg assms by (rule sdiv_neg)
  ultimately show ?thesis using neg by linarith
qed

lemma smod_pos_bounds:
  fixes x k :: int
  assumes "0 < k"
  shows "- k < x smod k \<and> x smod k < k"
proof (cases "0 \<le> x")
  case True
  have "0 \<le> x mod k" using assms by simp
  moreover have "x mod k < k" using assms by simp
  moreover have "x smod k = x mod k" using True assms by (rule smod_nonneg)
  ultimately show ?thesis using assms by linarith
next
  case False
  then have neg: "x < 0" by simp
  have "0 \<le> (- x) mod k" using assms by simp
  moreover have "(- x) mod k < k" using assms by simp
  moreover have "x smod k = - ((- x) mod k)" using neg assms by (rule smod_neg)
  ultimately show ?thesis using assms by linarith
qed

subsection \<open>Signed 64-bit words\<close>

lemma sint64_bounds:
  "- 9223372036854775808 \<le> sint (w :: 64 word) \<and> sint w \<le> 9223372036854775807"
  using sint_ge [of w] sint_lt [of w] by simp

lemma sint64_of_int:
  "- 9223372036854775808 \<le> i \<Longrightarrow> i \<le> 9223372036854775807 \<Longrightarrow>
   sint (word_of_int i :: 64 word) = i"
  by (simp add: sint_sbintrunc' signed_take_bit_int_eq_self)

lemma sint_eq_iff64: "(sint (x :: 64 word) = sint y) = (x = y)"
  by (rule signed_word_eqI iffI | simp)+

lemma sint64_add:
  assumes "- 9223372036854775808 \<le> sint a + sint b" "sint a + sint b \<le> 9223372036854775807"
  shows "sint (a + b :: 64 word) = sint a + sint b"
proof -
  have "a + b = word_of_int (sint a + sint b)" by simp
  then show ?thesis using sint64_of_int [OF assms] by simp
qed

lemma sint64_diff:
  assumes "- 9223372036854775808 \<le> sint a - sint b" "sint a - sint b \<le> 9223372036854775807"
  shows "sint (a - b :: 64 word) = sint a - sint b"
proof -
  have "a - b = word_of_int (sint a - sint b)" by simp
  then show ?thesis using sint64_of_int [OF assms] by simp
qed

lemma pos_1e9: "(0 :: 64 word) <s 1000000000"
  by (simp add: word_sless_alt)

text \<open>Narrowing to 32 bits keeps the value modulo \<open>2 ^ 32\<close>; widening an unsigned
  32-bit value to a signed 64-bit one keeps the value.\<close>

lemma ucast_of_int_64_32: "(ucast (word_of_int i :: 64 word) :: 32 word) = word_of_int i"
  by (rule bit_word_eqI) (auto simp add: bit_simps)

lemma sint_ucast_32_64: "sint (ucast (w :: 32 word) :: 64 word) = uint w"
proof -
  have "uint w < 4294967296" using uint_lt2p [of w] by simp
  then have "- 9223372036854775808 \<le> uint w \<and> uint w < 9223372036854775808"
    using uint_ge_0 [of w] by linarith
  then show ?thesis
    by (simp add: signed_ucast_eq signed_take_bit_int_eq_self_iff)
qed

subsection \<open>The division operators of C\<close>

text \<open>Quotient and remainder recombine to the dividend, as C guarantees.\<close>

lemma c_div_mult_c_mod: "c_div d k * k + c_mod d k = d"
proof -
  have "c_div d k * k + c_mod d k
          = word_of_int (sint d sdiv sint k * sint k + sint d smod sint k)"
    by (simp add: c_div_def c_mod_def)
  also have "\<dots> = word_of_int (sint d)" by (simp only: sdiv_mult_smod_eq)
  finally show ?thesis by simp
qed

text \<open>With a positive divisor neither operator overflows: the word results are the
  truncated quotient and the remainder of the integers.\<close>

lemma sint_c_div:
  assumes "0 <s k"
  shows "sint (c_div d k) = sint d sdiv sint k"
proof -
  have k: "0 < sint k" using assms by (simp add: word_sless_alt)
  have b: "min (sint d) 0 \<le> sint d sdiv sint k \<and> sint d sdiv sint k \<le> max (sint d) 0"
    by (rule sdiv_pos_bounds [OF k])
  have lo: "- 9223372036854775808 \<le> sint d sdiv sint k"
    using b sint64_bounds [of d] by linarith
  have hi: "sint d sdiv sint k \<le> 9223372036854775807"
    using b sint64_bounds [of d] by linarith
  show ?thesis
    unfolding c_div_def by (rule sint64_of_int [OF lo hi])
qed

lemma sint_c_mod:
  assumes "0 <s k"
  shows "sint (c_mod d k) = sint d smod sint k"
proof -
  have k: "0 < sint k" using assms by (simp add: word_sless_alt)
  have b: "- sint k < sint d smod sint k \<and> sint d smod sint k < sint k"
    by (rule smod_pos_bounds [OF k])
  have lo: "- 9223372036854775808 \<le> sint d smod sint k"
    using b sint64_bounds [of k] by linarith
  have hi: "sint d smod sint k \<le> 9223372036854775807"
    using b sint64_bounds [of k] by linarith
  show ?thesis
    unfolding c_mod_def by (rule sint64_of_int [OF lo hi])
qed

section \<open>Offsetting an absolute time\<close>

text \<open>
  After the two sums of \<^verbatim>\<open>mu_time_offset\<close>, the nanoseconds of a normalized base lie
  strictly between \<open>-1000000000\<close> and \<open>2000000000\<close>. The only correction the function
  applies is the carry for a value of \<open>1000000000\<close> or more, so its result is
  normalized exactly when the sum of the nanoseconds is not negative.
\<close>

lemma offset_normalized_iff:
  assumes "normalized base"
  shows "normalized (mu_time_offset base delta) \<longleftrightarrow>
           0 \<le> sint (nanoseconds base) + sint delta smod 1000000000"
proof -
  define nb where "nb = sint (nanoseconds base)"
  define m where "m = sint delta smod 1000000000"
  define s where "s = nanoseconds base + c_mod delta 1000000000"
  have nb: "0 \<le> nb" "nb < 1000000000"
    using assms by (simp_all add: normalized_def nb_def word_sle_eq word_sless_alt)
  have m: "- 1000000000 < m" "m < 1000000000"
    using smod_pos_bounds [of 1000000000 "sint delta"] by (simp_all add: m_def)
  have cm: "sint (c_mod delta 1000000000) = m"
    using sint_c_mod [OF pos_1e9, of delta] by (simp add: m_def)
  have s: "sint s = nb + m"
    unfolding s_def nb_def using nb m cm
    by (intro sint64_add [THEN trans]) (simp_all add: nb_def)
  show ?thesis
  proof (cases "1000000000 \<le>s s")
    case True
    then have ge: "1000000000 \<le> nb + m" by (simp add: word_sle_eq s)
    have "sint (s - 1000000000) = nb + m - 1000000000"
      using sint64_diff [of s 1000000000] nb m by (simp add: s)
    then have "normalized (mu_time_offset base delta)"
      using True ge nb m
      by (simp add: mu_time_offset_def Let_def normalized_def word_sle_eq word_sless_alt
          flip: s_def)
    then show ?thesis using ge by (simp flip: nb_def m_def)
  next
    case False
    then have lt: "nb + m < 1000000000" by (simp add: word_sle_eq s)
    have "normalized (mu_time_offset base delta) \<longleftrightarrow> 0 \<le> nb + m"
      using False lt
      by (simp add: mu_time_offset_def Let_def normalized_def word_sle_eq word_sless_alt s
          flip: s_def)
    then show ?thesis by (simp flip: nb_def m_def)
  qed
qed

text \<open>In particular a delta that is not negative keeps the result normalized.\<close>

lemma offset_normalized_nonneg:
  assumes "normalized base" "0 \<le>s delta"
  shows "normalized (mu_time_offset base delta)"
proof -
  have "0 \<le> sint delta" using assms(2) by (simp add: word_sle_eq)
  then have "0 \<le> sint delta smod 1000000000" by (simp add: smod_nonneg)
  moreover have "0 \<le> sint (nanoseconds base)"
    using assms(1) by (simp add: normalized_def word_sle_eq)
  ultimately show ?thesis by (simp add: offset_normalized_iff [OF assms(1)])
qed

text \<open>
  Claim C1 says that for every base with nanoseconds in \<open>[0, 1000000000)\<close> and every
  delta, \<^verbatim>\<open>mu_time_offset\<close> carries both overflow and underflow of the nanoseconds into
  the seconds, so that the nanoseconds of the result are again in \<open>[0, 1000000000)\<close>.
  The function carries the overflow only. One nanosecond before \<open>{1000, 0}\<close> it returns
  \<open>{1000, -1}\<close>, where \<open>{999, 999999999}\<close> is the normalized time: the base is
  normalized, the result is not.
\<close>

theorem offset_negative_delta_not_normalized:
  "normalized \<lparr>seconds = 1000, nanoseconds = 0\<rparr> \<and>
   mu_time_offset \<lparr>seconds = 1000, nanoseconds = 0\<rparr> (- 1)
     = \<lparr>seconds = 1000, nanoseconds = - 1\<rparr> \<and>
   \<not> normalized (mu_time_offset \<lparr>seconds = 1000, nanoseconds = 0\<rparr> (- 1))"
  by (simp add: normalized_def mu_time_offset_def c_div_def c_mod_def signed_divide_int_def
      signed_modulo_int_def Let_def word_sle_eq word_sless_alt)

text \<open>
  Claim C8: \<^verbatim>\<open>mu_time_offset({1000, 500000000}, 1500000000)\<close> is exactly
  \<open>{1002, 0}\<close>. The quotient adds one second, the remainder brings the nanoseconds to
  \<open>1000000000\<close>, and the carry adds the second second.
\<close>

theorem offset_scenario:
  "mu_time_offset \<lparr>seconds = 1000, nanoseconds = 500000000\<rparr> 1500000000
     = \<lparr>seconds = 1002, nanoseconds = 0\<rparr>"
  by (simp add: mu_time_offset_def c_div_def c_mod_def signed_divide_int_def
      signed_modulo_int_def Let_def)

section \<open>Difference of absolute times\<close>

text \<open>
  Claim C3: for every absolute time \<open>t\<close> and every relative time \<open>d\<close>,
  \<^verbatim>\<open>mu_time_difference(t, mu_time_offset(t, d))\<close> is \<open>d\<close>. In two's complement arithmetic
  the identity needs no side condition: the quotient and the remainder of \<open>d\<close> recombine
  to \<open>d\<close> whether or not the carry is taken, whether or not the nanoseconds went
  negative, and also when the seconds wrap around; so it holds in particular wherever
  \<open>t + d\<close> is representable.
\<close>

theorem difference_of_offset:
  "mu_time_difference t (mu_time_offset t d) = d"
  using c_div_mult_c_mod [of d 1000000000]
  by (simp add: mu_time_difference_def mu_time_offset_def Let_def algebra_simps)

text \<open>
  The difference as a 64-bit pattern, for all operands: the integer
  "seconds difference scaled to nanoseconds, plus nanoseconds difference", reduced to
  64 bits.
\<close>

lemma difference_word_of_int:
  "mu_time_difference a b
     = word_of_int ((sint (seconds b) - sint (seconds a)) * 1000000000
                    + (sint (nanoseconds b) - sint (nanoseconds a)))"
  by (simp add: mu_time_difference_def)

text \<open>
  Claim C6: \<^verbatim>\<open>mu_time_difference\<close> is anti-symmetric, and \<^verbatim>\<open>mu_time_difference(a, b)\<close>
  returns \<open>b - a\<close>. For all absolute times \<open>a\<close> and \<open>b\<close> the result is the negation of
  \<^verbatim>\<open>mu_time_difference(b, a)\<close>, and it is the 64-bit value of \<open>b - a\<close> in nanoseconds,
  that is of the difference of the seconds times \<open>1000000000\<close> plus the difference of
  the nanoseconds. Whenever that number of nanoseconds is an \<^verbatim>\<open>int64_t\<close>, the result read
  as a signed integer is exactly that number.
\<close>

theorem difference_antisymmetric:
  "mu_time_difference a b = - mu_time_difference b a \<and>
   mu_time_difference a b
     = word_of_int ((sint (seconds b) - sint (seconds a)) * 1000000000
                    + (sint (nanoseconds b) - sint (nanoseconds a))) \<and>
   (- (2 ^ 63) \<le> (sint (seconds b) - sint (seconds a)) * 1000000000
                   + (sint (nanoseconds b) - sint (nanoseconds a)) \<and>
    (sint (seconds b) - sint (seconds a)) * 1000000000
      + (sint (nanoseconds b) - sint (nanoseconds a)) < 2 ^ 63 \<longrightarrow>
    sint (mu_time_difference a b)
      = (sint (seconds b) - sint (seconds a)) * 1000000000
        + (sint (nanoseconds b) - sint (nanoseconds a)))"
proof (intro conjI impI)
  show "mu_time_difference a b = - mu_time_difference b a"
    by (simp add: mu_time_difference_def algebra_simps)
  show "mu_time_difference a b
     = word_of_int ((sint (seconds b) - sint (seconds a)) * 1000000000
                    + (sint (nanoseconds b) - sint (nanoseconds a)))"
    by (rule difference_word_of_int)
  show "sint (mu_time_difference a b)
      = (sint (seconds b) - sint (seconds a)) * 1000000000
        + (sint (nanoseconds b) - sint (nanoseconds a))"
    if "- (2 ^ 63) \<le> (sint (seconds b) - sint (seconds a)) * 1000000000
                   + (sint (nanoseconds b) - sint (nanoseconds a)) \<and>
        (sint (seconds b) - sint (seconds a)) * 1000000000
          + (sint (nanoseconds b) - sint (nanoseconds a)) < 2 ^ 63"
    unfolding difference_word_of_int using that by (intro sint64_of_int) simp_all
qed

theorem difference_antisymmetric_witness:
  "sint (mu_time_difference \<lparr>seconds = 1000, nanoseconds = 0\<rparr>
           \<lparr>seconds = 1002, nanoseconds = 500000000\<rparr>) = 2500000000 \<and>
   mu_time_difference \<lparr>seconds = 1002, nanoseconds = 500000000\<rparr>
     \<lparr>seconds = 1000, nanoseconds = 0\<rparr> = - 2500000000"
proof -
  define a where "a = \<lparr>seconds = 1000, nanoseconds = 0\<rparr>"
  define b where "b = \<lparr>seconds = 1002, nanoseconds = 500000000\<rparr>"
  have D: "(sint (seconds b) - sint (seconds a)) * 1000000000
             + (sint (nanoseconds b) - sint (nanoseconds a)) = 2500000000"
    by (simp add: a_def b_def)
  note th = difference_antisymmetric [of a b, unfolded D]
  have anti: "mu_time_difference a b = - mu_time_difference b a"
    using th by (rule conjunct1)
  have val: "mu_time_difference a b = word_of_int 2500000000"
    using th by (elim conjE)
  have "sint (mu_time_difference a b) = 2500000000"
    using th by (elim conjE) simp
  moreover have "mu_time_difference b a = - mu_time_difference a b"
    by (simp add: anti)
  then have "mu_time_difference b a = - 2500000000" by (simp add: val)
  ultimately show ?thesis by (simp add: a_def b_def)
qed

text \<open>Beyond that range the 64-bit value has wrapped: from \<open>{0, 0}\<close> to
  \<open>{9223372037, 0}\<close> the result is negative.\<close>

lemma difference_wraps_beyond_range:
  "sint (mu_time_difference \<lparr>seconds = 0, nanoseconds = 0\<rparr>
           \<lparr>seconds = 9223372037, nanoseconds = 0\<rparr>) = - 9223372036709551616"
  by (simp add: mu_time_difference_def)

section \<open>Ordering of absolute times\<close>

text \<open>The two comparisons, read on the integers that the fields denote.\<close>

lemma is_before_sint:
  "mu_time_is_before a b \<longleftrightarrow>
     sint (seconds a) < sint (seconds b) \<or>
     (sint (seconds a) = sint (seconds b) \<and> sint (nanoseconds a) < sint (nanoseconds b))"
  by (simp add: mu_time_is_before_def word_sless_alt sint_eq_iff64)

lemma is_after_sint:
  "mu_time_is_after a b \<longleftrightarrow>
     sint (seconds b) < sint (seconds a) \<or>
     (sint (seconds a) = sint (seconds b) \<and> sint (nanoseconds b) < sint (nanoseconds a))"
  by (simp add: mu_time_is_after_def word_sless_alt sint_eq_iff64)

lemma abs_eq_sint:
  "(a :: mu_time_abs_t) = b \<longleftrightarrow>
     sint (seconds a) = sint (seconds b) \<and> sint (nanoseconds a) = sint (nanoseconds b)"
  by (cases a; cases b) (simp add: sint_eq_iff64)

text \<open>
  Claim C5: \<^verbatim>\<open>mu_time_is_before\<close> and \<^verbatim>\<open>mu_time_is_after\<close> define a strict total order
  on absolute times, decided lexicographically by seconds, then nanoseconds. No time is
  before or after itself; \<open>a\<close> is before \<open>b\<close> exactly when \<open>b\<close> is after \<open>a\<close>; exactly
  one of "\<open>a\<close> before \<open>b\<close>", "\<open>b\<close> before \<open>a\<close>" and \<open>a = b\<close> holds; the order is
  transitive; and it is the lexicographic order of the signed values of the two fields.
  All of this holds for every pair of field values, normalized or not.
\<close>

theorem before_after_strict_total_order:
  "\<not> mu_time_is_before a a \<and> \<not> mu_time_is_after a a \<and>
   mu_time_is_before a b = mu_time_is_after b a \<and>
   ((mu_time_is_before a b \<and> \<not> mu_time_is_before b a \<and> a \<noteq> b) \<or>
    (mu_time_is_before b a \<and> \<not> mu_time_is_before a b \<and> a \<noteq> b) \<or>
    (a = b \<and> \<not> mu_time_is_before a b \<and> \<not> mu_time_is_before b a)) \<and>
   (mu_time_is_before a b \<longrightarrow> mu_time_is_before b c \<longrightarrow> mu_time_is_before a c) \<and>
   (mu_time_is_before a b \<longleftrightarrow>
      sint (seconds a) < sint (seconds b) \<or>
      (sint (seconds a) = sint (seconds b) \<and> sint (nanoseconds a) < sint (nanoseconds b)))"
proof (intro conjI)
  show "\<not> mu_time_is_before a a" by (simp add: is_before_sint)
  show "\<not> mu_time_is_after a a" by (simp add: is_after_sint)
  show "mu_time_is_before a b = mu_time_is_after b a"
    by (auto simp add: is_before_sint is_after_sint)
  show "(mu_time_is_before a b \<and> \<not> mu_time_is_before b a \<and> a \<noteq> b) \<or>
    (mu_time_is_before b a \<and> \<not> mu_time_is_before a b \<and> a \<noteq> b) \<or>
    (a = b \<and> \<not> mu_time_is_before a b \<and> \<not> mu_time_is_before b a)"
    unfolding is_before_sint abs_eq_sint by linarith
  show "mu_time_is_before a b \<longrightarrow> mu_time_is_before b c \<longrightarrow> mu_time_is_before a c"
    unfolding is_before_sint by linarith
  show "mu_time_is_before a b \<longleftrightarrow>
      sint (seconds a) < sint (seconds b) \<or>
      (sint (seconds a) = sint (seconds b) \<and> sint (nanoseconds a) < sint (nanoseconds b))"
    by (rule is_before_sint)
qed

theorem before_after_strict_total_order_witness:
  "mu_time_is_before \<lparr>seconds = 1000, nanoseconds = 0\<rparr> \<lparr>seconds = 1000, nanoseconds = 5\<rparr> \<and>
   mu_time_is_before \<lparr>seconds = 1000, nanoseconds = 5\<rparr> \<lparr>seconds = 1002, nanoseconds = 0\<rparr> \<and>
   mu_time_is_before \<lparr>seconds = 1000, nanoseconds = 0\<rparr> \<lparr>seconds = 1002, nanoseconds = 0\<rparr> \<and>
   mu_time_is_after \<lparr>seconds = 1000, nanoseconds = 5\<rparr> \<lparr>seconds = 1000, nanoseconds = 0\<rparr>"
  using before_after_strict_total_order
    [of "\<lparr>seconds = 1000, nanoseconds = 0\<rparr>" "\<lparr>seconds = 1000, nanoseconds = 5\<rparr>"
        "\<lparr>seconds = 1002, nanoseconds = 0\<rparr>"]
  by (simp add: mu_time_is_before_def mu_time_is_after_def word_sless_alt)

section \<open>The maximum relative time\<close>

text \<open>
  Claim C7: \<^verbatim>\<open>mu_time_rel_max\<close> returns the largest relative time, \<open>2 ^ 63 - 1\<close>: no
  \<^verbatim>\<open>int64_t\<close> is greater. Offsetting \<open>{1000, 0}\<close> by it gives
  \<open>{9223373036, 854775807}\<close> without any overflow, a time that is after \<open>{1000, 0}\<close>
  and is not before it.
\<close>

theorem rel_max_offset_is_after:
  "(\<forall>d. d \<le>s mu_time_rel_max) \<and>
   sint mu_time_rel_max = 2 ^ 63 - 1 \<and>
   mu_time_offset \<lparr>seconds = 1000, nanoseconds = 0\<rparr> mu_time_rel_max
     = \<lparr>seconds = 9223373036, nanoseconds = 854775807\<rparr> \<and>
   mu_time_is_after (mu_time_offset \<lparr>seconds = 1000, nanoseconds = 0\<rparr> mu_time_rel_max)
     \<lparr>seconds = 1000, nanoseconds = 0\<rparr> \<and>
   \<not> mu_time_is_before (mu_time_offset \<lparr>seconds = 1000, nanoseconds = 0\<rparr> mu_time_rel_max)
     \<lparr>seconds = 1000, nanoseconds = 0\<rparr>"
proof -
  have m: "sint mu_time_rel_max = 9223372036854775807"
    by (simp add: mu_time_rel_max_def)
  have le: "\<forall>d. d \<le>s mu_time_rel_max"
    using sint64_bounds by (simp add: word_sle_eq m)
  have off: "mu_time_offset \<lparr>seconds = 1000, nanoseconds = 0\<rparr> mu_time_rel_max
     = \<lparr>seconds = 9223373036, nanoseconds = 854775807\<rparr>"
    by (simp add: mu_time_offset_def mu_time_rel_max_def c_div_def c_mod_def
        signed_divide_int_def signed_modulo_int_def Let_def word_sle_eq)
  show ?thesis
    unfolding off using m le
    by (simp add: mu_time_is_after_def mu_time_is_before_def word_sless_alt)
qed

section \<open>Milliseconds\<close>

text \<open>
  The value of \<^verbatim>\<open>mu_time_rel_from_millis\<close>: the product reduced modulo \<open>2 ^ 32\<close>. Up to
  4294 milliseconds the product is below \<open>2 ^ 32\<close>, the result is the number of
  nanoseconds, and converting back returns the milliseconds.
\<close>

lemma sint_from_millis:
  "sint (mu_time_rel_from_millis n) = (uint n * 1000000) mod 2 ^ 32"
  by (simp add: mu_time_rel_from_millis_def sint_ucast_32_64 uint_word_ariths)

lemma millis_round_trip_small:
  assumes "n \<le> 4294"
  shows "sint (mu_time_rel_from_millis n) = uint n * 1000000 \<and>
         mu_time_rel_to_millis (mu_time_rel_from_millis n) = n"
proof -
  have n: "uint n \<le> 4294" using assms by (simp add: word_le_def)
  have n0: "0 \<le> uint n" by simp
  have s: "sint (mu_time_rel_from_millis n) = uint n * 1000000"
    using n n0 by (simp add: sint_from_millis)
  have q: "sint (mu_time_rel_from_millis n) sdiv sint (1000000 :: 64 word) = uint n"
    using n0 by (simp add: s sdiv_nonneg)
  have "mu_time_rel_to_millis (mu_time_rel_from_millis n)
          = ucast (word_of_int (uint n) :: 64 word)"
    by (simp only: mu_time_rel_to_millis_def c_div_def q)
  also have "\<dots> = word_of_int (uint n)" by (rule ucast_of_int_64_32)
  also have "\<dots> = n" by simp
  finally show ?thesis using s by simp
qed

text \<open>
  Claim C2 says that \<^verbatim>\<open>mu_time_rel_from_millis(n)\<close> is \<open>n\<close> scaled by \<open>1000000\<close> and
  that converting back gives \<open>n\<close>, for every \<^verbatim>\<open>uint32_t\<close> whose nanoseconds fit the
  relative time; every \<^verbatim>\<open>uint32_t\<close> does, since \<open>2 ^ 32 * 1000000 < 2 ^ 63\<close>. The
  function multiplies in 32 bits and widens afterwards. For 5000 milliseconds it returns
  \<open>5000000000 mod 2 ^ 32 = 705032704\<close> nanoseconds, and the way back gives 705.
\<close>

theorem from_millis_wraps_at_5000:
  "mu_time_rel_from_millis 5000 = 705032704 \<and>
   mu_time_rel_to_millis (mu_time_rel_from_millis 5000) = 705"
  by (simp add: mu_time_rel_from_millis_def mu_time_rel_to_millis_def c_div_def
      signed_divide_int_def)

text \<open>The value of \<^verbatim>\<open>mu_time_rel_to_millis\<close>, for every relative time.\<close>

lemma uint_to_millis:
  "uint (mu_time_rel_to_millis d) = (sint d sdiv 1000000) mod 2 ^ 32"
  by (simp add: mu_time_rel_to_millis_def c_div_def ucast_of_int_64_32 uint_word_of_int)

text \<open>
  Claim C10, as amended: for every negative relative time \<open>d\<close>,
  \<^verbatim>\<open>mu_time_rel_to_millis(d)\<close> does not fail and clamps nothing: it is the quotient of
  \<open>d\<close> by \<open>1000000\<close>, truncated toward zero, reduced modulo \<open>2 ^ 32\<close>. The quotient of a
  negative \<open>d\<close> is \<open>- ((- d) div 1000000)\<close>. For \<open>-1000000 < d < 0\<close> it is zero, and so
  is the result. For \<open>-2147483649000000 < d \<le> -1000000\<close> the result is
  \<open>2 ^ 32 - (- d) div 1000000\<close>, a value of at least \<open>2 ^ 31\<close> and not a count of
  milliseconds.
\<close>

theorem rel_to_millis_negative:
  assumes "d <s 0"
  shows "uint (mu_time_rel_to_millis d) = (- ((- sint d) div 1000000)) mod 2 ^ 32 \<and>
         (- 1000000 <s d \<longrightarrow> mu_time_rel_to_millis d = 0) \<and>
         (d \<le>s - 1000000 \<and> - 2147483649000000 <s d \<longrightarrow>
            uint (mu_time_rel_to_millis d) = 2 ^ 32 - (- sint d) div 1000000 \<and>
            2 ^ 31 \<le> uint (mu_time_rel_to_millis d))"
proof (intro conjI impI)
  have neg: "sint d < 0" using assms by (simp add: word_sless_alt)
  have q: "sint d sdiv 1000000 = - ((- sint d) div 1000000)"
    using neg by (simp add: sdiv_neg)
  show m: "uint (mu_time_rel_to_millis d) = (- ((- sint d) div 1000000)) mod 2 ^ 32"
    by (simp only: uint_to_millis q)
  show "mu_time_rel_to_millis d = 0" if "- 1000000 <s d"
  proof -
    have "- 1000000 < sint d" using that by (simp add: word_sless_alt)
    then have "(- sint d) div 1000000 = 0" using neg by simp
    then have "uint (mu_time_rel_to_millis d) = 0" by (simp add: m)
    then show ?thesis by (simp add: unsigned_eq_0_iff)
  qed
  have band: "uint (mu_time_rel_to_millis d) = 4294967296 - (- sint d) div 1000000 \<and>
              (- sint d) div 1000000 \<le> 2147483648"
    if "d \<le>s - 1000000 \<and> - 2147483649000000 <s d"
  proof -
    have lo: "- 2147483649000000 < sint d" and hi: "sint d \<le> - 1000000"
      using that by (simp_all add: word_sless_alt word_sle_eq)
    have ge: "1 \<le> (- sint d) div 1000000" using hi by linarith
    have le: "(- sint d) div 1000000 \<le> 2147483648" using lo by linarith
    have "(- ((- sint d) div 1000000)) mod 4294967296
            = 4294967296 - (- sint d) div 1000000"
      using ge le zmod_zminus1_eq_if [of "(- sint d) div 1000000" 4294967296] by simp
    then show ?thesis using le by (simp add: m)
  qed
  show "uint (mu_time_rel_to_millis d) = 2 ^ 32 - (- sint d) div 1000000"
    if "d \<le>s - 1000000 \<and> - 2147483649000000 <s d"
    using band [OF that] by simp
  show "2 ^ 31 \<le> uint (mu_time_rel_to_millis d)"
    if "d \<le>s - 1000000 \<and> - 2147483649000000 <s d"
    using band [OF that] by simp
qed

theorem rel_to_millis_negative_witness:
  "(- 1500000000 :: 64 word) <s 0 \<and> mu_time_rel_to_millis (- 1500000000) = 4294965796 \<and>
   (- 999999 :: 64 word) <s 0 \<and> mu_time_rel_to_millis (- 999999) = 0"
proof -
  have h: "(- 1500000000 :: 64 word) <s 0" by (simp add: word_sless_alt)
  have "uint (mu_time_rel_to_millis (- 1500000000)) = 4294965796"
    using rel_to_millis_negative [OF h] by (simp add: word_sless_alt word_sle_eq)
  then have "word_of_int (uint (mu_time_rel_to_millis (- 1500000000)))
               = (word_of_int 4294965796 :: 32 word)"
    by (rule arg_cong)
  then have a: "mu_time_rel_to_millis (- 1500000000) = 4294965796" by simp
  have k: "(- 999999 :: 64 word) <s 0" by (simp add: word_sless_alt)
  have b: "mu_time_rel_to_millis (- 999999) = 0"
    using rel_to_millis_negative [OF k] by (simp add: word_sless_alt)
  show ?thesis using h a k b by simp
qed

text \<open>
  Claim C10 as first stated calls the result for every negative relative time a large
  unsigned value, not zero and not a count of milliseconds. One nanosecond before zero
  the truncated quotient is zero and the function returns zero; and 4294967295 seconds
  before zero the quotient wraps around to 1.
\<close>

theorem rel_to_millis_negative_small_results:
  "(- 1 :: 64 word) <s 0 \<and> mu_time_rel_to_millis (- 1) = 0 \<and>
   (- 4294967295000000 :: 64 word) <s 0 \<and> mu_time_rel_to_millis (- 4294967295000000) = 1"
  by (simp add: mu_time_rel_to_millis_def c_div_def signed_divide_int_def word_sless_alt)

section \<open>Reading the current time\<close>

text \<open>When the clock succeeds, the result is the time the clock wrote, whatever the
  local variable held before.\<close>

lemma now_clock_ok:
  "mu_time_now (clock_ok t) ts0 = \<lparr>seconds = tv_sec t, nanoseconds = tv_nsec t\<rparr>"
  by (simp add: mu_time_now_def clock_ok_def)

text \<open>
  Claim C4 says that \<^verbatim>\<open>mu_time_now\<close> returns a defined absolute time for every outcome
  of the clock, a zero or sentinel value when \<^verbatim>\<open>clock_gettime\<close> fails. The function
  never reads the status of the call and copies the buffer as it is. With a clock that
  fails and leaves the buffer untouched, the result is what the uninitialised local
  variable held: for \<open>{0, -1}\<close> it is \<open>{0, -1}\<close>, whose nanoseconds are outside the range
  \<open>0 - 999999999\<close> that the header documents, and for \<open>{5, 7}\<close> it is \<open>{5, 7}\<close>, so two
  calls that fail alike return different times.
\<close>

theorem now_failed_clock_returns_buffer:
  "mu_time_now clock_failed \<lparr>tv_sec = 0, tv_nsec = - 1\<rparr> = \<lparr>seconds = 0, nanoseconds = - 1\<rparr> \<and>
   \<not> normalized (mu_time_now clock_failed \<lparr>tv_sec = 0, tv_nsec = - 1\<rparr>) \<and>
   mu_time_now clock_failed \<lparr>tv_sec = 5, tv_nsec = 7\<rparr> = \<lparr>seconds = 5, nanoseconds = 7\<rparr>"
  by (simp add: mu_time_now_def clock_failed_def normalized_def word_sle_eq)

section \<open>Seconds as a floating-point number\<close>

subsection \<open>Spacing and rounding of binary32\<close>

declare bit_length.simps [simp del]

lemma bit_length_eq: "2 ^ n \<le> k \<Longrightarrow> k < 2 ^ Suc n \<Longrightarrow> bit_length k = Suc n"
proof (induction n arbitrary: k)
  case 0
  then have "k = 1" by simp
  then show ?case by (simp add: bit_length.simps [of 1] bit_length.simps [of 0])
next
  case (Suc n)
  have "(0 :: int) < 2 ^ Suc n" by simp
  then have pos: "0 < k" using Suc.prems(1) by linarith
  have "2 ^ n \<le> k div 2" using Suc.prems(1) by simp
  moreover have "k div 2 < 2 ^ Suc n" using Suc.prems(2) by simp
  ultimately have "bit_length (k div 2) = Suc n" by (rule Suc.IH)
  then show ?case using pos by (simp add: bit_length.simps [of k])
qed

lemma ulp32_pos: "0 < ulp32 y"
  by (simp add: ulp32_def)

text \<open>In the binade of \<open>2 ^ e\<close> the spacing is \<open>2 ^ (e - 23)\<close>.\<close>

lemma ulp32_binade:
  assumes "2 ^ e \<le> \<bar>y\<bar>" "\<bar>y\<bar> < 2 ^ Suc e"
  shows "ulp32 y = 2 ^ e / 2 ^ 23"
proof -
  define k where "k = \<lfloor>\<bar>y\<bar> * 2 ^ 149\<rfloor>"
  have "(2 :: real) ^ (e + 149) \<le> \<bar>y\<bar> * 2 ^ 149"
    using assms(1) by (simp add: power_add)
  then have "of_int (2 ^ (e + 149)) \<le> \<bar>y\<bar> * 2 ^ 149" by simp
  then have lo: "2 ^ (e + 149) \<le> k" unfolding k_def by (simp only: le_floor_iff)
  have "\<bar>y\<bar> * 2 ^ 149 < (2 :: real) ^ Suc (e + 149)"
    using assms(2) by (simp add: power_add)
  then have "\<bar>y\<bar> * 2 ^ 149 < of_int (2 ^ Suc (e + 149))" by simp
  then have hi: "k < 2 ^ Suc (e + 149)" unfolding k_def by (simp only: floor_less_iff)
  have "bit_length k = Suc (e + 149)" using lo hi by (rule bit_length_eq)
  then have "ulp32 y = 2 ^ (e + 126) / 2 ^ 149" by (simp add: ulp32_def k_def)
  also have "\<dots> = 2 ^ e / 2 ^ 23" by (simp add: power_add)
  finally show ?thesis .
qed

lemma round_even_near: "\<bar>of_int (round_even r) - r\<bar> \<le> 1 / 2"
  unfolding round_even_def Let_def by (auto; linarith)

lemma round_even_of_int: "round_even (of_int n) = n"
  by (simp add: round_even_def)

text \<open>Rounding moves a number by at most half the spacing.\<close>

lemma nearest32_error: "\<bar>nearest32 y - y\<bar> \<le> ulp32 y / 2"
proof -
  have u: "0 < ulp32 y" by (rule ulp32_pos)
  have "nearest32 y - y = (of_int (round_even (y / ulp32 y)) - y / ulp32 y) * ulp32 y"
    using u by (simp add: nearest32_def algebra_simps)
  then have "\<bar>nearest32 y - y\<bar>
               = \<bar>of_int (round_even (y / ulp32 y)) - y / ulp32 y\<bar> * ulp32 y"
    using u by (simp add: abs_mult)
  also have "\<dots> \<le> 1 / 2 * ulp32 y"
    using u round_even_near [of "y / ulp32 y"] by (intro mult_right_mono) simp_all
  finally show ?thesis by simp
qed

lemma nearest32_eval:
  assumes "2 ^ e \<le> \<bar>y\<bar>" "\<bar>y\<bar> < 2 ^ Suc e" "round_even (y / (2 ^ e / 2 ^ 23)) = n"
  shows "nearest32 y = of_int n * (2 ^ e / 2 ^ 23)"
  using assms(3) by (simp only: nearest32_def ulp32_binade [OF assms(1,2)])

text \<open>A multiple of the spacing of its binade is a binary32 value: rounding keeps it.\<close>

lemma nearest32_exact:
  assumes "2 ^ e \<le> \<bar>y\<bar>" "\<bar>y\<bar> < 2 ^ Suc e" "y / (2 ^ e / 2 ^ 23) = of_int n"
  shows "nearest32 y = y"
proof -
  have "round_even (y / (2 ^ e / 2 ^ 23)) = n"
    by (simp only: assms(3) round_even_of_int)
  then have "nearest32 y = of_int n * (2 ^ e / 2 ^ 23)"
    by (rule nearest32_eval [OF assms(1,2)])
  also have "\<dots> = y / (2 ^ e / 2 ^ 23) * (2 ^ e / 2 ^ 23)" by (simp only: assms(3))
  also have "\<dots> = y" by simp
  finally show ?thesis .
qed

lemma nearest32_three_halves: "nearest32 1500000000 = 1500000000"
  by (rule nearest32_exact [of 30 _ 11718750]) simp_all

lemma nearest32_minus_three_halves: "nearest32 (- 1500000000) = - 1500000000"
  by (rule nearest32_exact [of 30 _ "- 11718750"]) simp_all

subsection \<open>Truncation\<close>

lemma trunc_zero_toward_zero:
  "\<bar>real_of_int (trunc_zero r)\<bar> \<le> \<bar>r\<bar> \<and> \<bar>r - of_int (trunc_zero r)\<bar> < 1"
  unfolding trunc_zero_def by (auto; linarith)

lemma trunc_zero_range:
  assumes "- (2 ^ 63) \<le> r" "r < 2 ^ 63"
  shows "- (2 ^ 63) \<le> trunc_zero r \<and> trunc_zero r < 2 ^ 63"
proof (cases "0 \<le> r")
  case True
  have "r < of_int (2 ^ 63)" using assms(2) by simp
  then have "\<lfloor>r\<rfloor> < 2 ^ 63" by (simp only: floor_less_iff)
  moreover have "0 \<le> \<lfloor>r\<rfloor>" using True by simp
  ultimately show ?thesis using True by (simp add: trunc_zero_def)
next
  case False
  have "of_int (- (2 ^ 63)) \<le> r" using assms(1) by simp
  then have "- (2 ^ 63) \<le> \<lceil>r\<rceil>"
    by (meson ceiling_mono ceiling_of_int order.trans le_of_int_ceiling of_int_le_iff)
  moreover have "\<lceil>r\<rceil> \<le> 0" using False by (simp add: ceiling_le_iff)
  ultimately show ?thesis using False by (simp add: trunc_zero_def)
qed

subsection \<open>The conversion\<close>

text \<open>The constant \<open>1000000000\<close> is a binary32 value, so its conversion to \<^verbatim>\<open>float\<close> is
  exact, and the function is one rounded product followed by the cast.\<close>

lemma float_of_int_1e9: "float_of_int 1000000000 = Finite 1000000000"
proof -
  have "nearest32 1000000000 = 1000000000"
    by (rule nearest32_exact [of 29 _ 15625000]) simp_all
  then show ?thesis by (simp add: float_of_int_def round32_def)
qed

lemma from_seconds_finite:
  "mu_time_rel_from_seconds (Finite x) = float_to_int64 (round32 (x * 1000000000))"
  by (simp add: mu_time_rel_from_seconds_def float_of_int_1e9)

text \<open>
  Claim C9, as amended: \<^verbatim>\<open>mu_time_rel_from_seconds\<close> multiplies the seconds by
  \<open>1000000000\<close> in single precision, which rounds the exact product to the nearest
  binary32 value, and truncates that rounded product toward zero. This holds for every
  finite input, positive or negative, whose rounded product \<open>p\<close> lies in
  \<open>[-2 ^ 63, 2 ^ 63)\<close>: the result is the integer between zero and \<open>p\<close> that is less
  than one away from \<open>p\<close>, and \<open>p\<close> is within half a unit in the last place of the
  exact product. Where the exact product is itself a binary32 value, the result is the
  exact product truncated toward zero; in particular
  \<^verbatim>\<open>mu_time_rel_from_seconds(1.5)\<close> is \<open>1500000000\<close>.
\<close>

theorem rel_from_seconds_rounds_then_truncates:
  assumes "- (2 ^ 63) \<le> nearest32 (x * 1000000000)"
    and "nearest32 (x * 1000000000) < 2 ^ 63"
  shows "mu_time_rel_from_seconds (Finite x)
           = Some (word_of_int (trunc_zero (nearest32 (x * 1000000000)))) \<and>
         sint (word_of_int (trunc_zero (nearest32 (x * 1000000000))) :: 64 word)
           = trunc_zero (nearest32 (x * 1000000000)) \<and>
         \<bar>real_of_int (trunc_zero (nearest32 (x * 1000000000)))\<bar>
           \<le> \<bar>nearest32 (x * 1000000000)\<bar> \<and>
         \<bar>nearest32 (x * 1000000000)
            - of_int (trunc_zero (nearest32 (x * 1000000000)))\<bar> < 1 \<and>
         \<bar>nearest32 (x * 1000000000) - x * 1000000000\<bar> \<le> ulp32 (x * 1000000000) / 2 \<and>
         (nearest32 (x * 1000000000) = x * 1000000000 \<longrightarrow>
            mu_time_rel_from_seconds (Finite x)
              = Some (word_of_int (trunc_zero (x * 1000000000)))) \<and>
         mu_time_rel_from_seconds (Finite (3 / 2)) = Some 1500000000"
proof -
  define p where "p = nearest32 (x * 1000000000)"
  have lo: "- (2 ^ 63) \<le> p" and hi: "p < 2 ^ 63" using assms by (simp_all add: p_def)
  have t: "- (2 ^ 63) \<le> trunc_zero p \<and> trunc_zero p < 2 ^ 63"
    using lo hi by (rule trunc_zero_range)
  have "p < 2 ^ 128" using hi by (rule less_trans) simp
  moreover have "- (2 ^ 128) < p" using lo by (rule less_le_trans [rotated]) simp
  ultimately have r: "round32 (x * 1000000000) = Finite p"
    by (simp add: round32_def Let_def flip: p_def)
  have res: "mu_time_rel_from_seconds (Finite x) = Some (word_of_int (trunc_zero p))"
    using t by (simp add: from_seconds_finite r)
  have s: "sint (word_of_int (trunc_zero p) :: 64 word) = trunc_zero p"
    using t by (intro sint64_of_int) simp_all
  have tz: "\<bar>real_of_int (trunc_zero p)\<bar> \<le> \<bar>p\<bar> \<and> \<bar>p - of_int (trunc_zero p)\<bar> < 1"
    by (rule trunc_zero_toward_zero)
  have er: "\<bar>p - x * 1000000000\<bar> \<le> ulp32 (x * 1000000000) / 2"
    unfolding p_def by (rule nearest32_error)
  have ex: "p = x * 1000000000 \<longrightarrow>
      mu_time_rel_from_seconds (Finite x) = Some (word_of_int (trunc_zero (x * 1000000000)))"
    using res by simp
  have "round32 1500000000 = Finite 1500000000"
    by (simp add: round32_def nearest32_three_halves)
  then have i: "mu_time_rel_from_seconds (Finite (3 / 2)) = Some 1500000000"
    by (simp add: from_seconds_finite trunc_zero_def)
  show ?thesis using res s tz er ex i unfolding p_def by blast
qed

theorem rel_from_seconds_rounds_then_truncates_witness:
  "- (2 ^ 63) \<le> nearest32 (- (3 / 2) * 1000000000) \<and>
   nearest32 (- (3 / 2) * 1000000000) < 2 ^ 63 \<and>
   mu_time_rel_from_seconds (Finite (- (3 / 2))) = Some (- 1500000000)"
proof -
  have y: "- (3 / 2) * 1000000000 = (- 1500000000 :: real)" by simp
  have lo: "- (2 ^ 63) \<le> nearest32 (- (3 / 2) * 1000000000)"
    by (simp only: y nearest32_minus_three_halves) simp
  have hi: "nearest32 (- (3 / 2) * 1000000000) < 2 ^ 63"
    by (simp only: y nearest32_minus_three_halves) simp
  have "mu_time_rel_from_seconds (Finite (- (3 / 2)))
          = Some (word_of_int (trunc_zero (nearest32 (- (3 / 2) * 1000000000))))"
    using rel_from_seconds_rounds_then_truncates [OF lo hi] by blast
  then have "mu_time_rel_from_seconds (Finite (- (3 / 2))) = Some (- 1500000000)"
    by (simp only: y nearest32_minus_three_halves) (simp add: trunc_zero_def)
  then show ?thesis using lo hi by blast
qed

text \<open>
  Claim C9 as first stated has the exact product truncated, with no rounding, for every
  float. The float next above 1 is \<open>1 + 2 ^ -23 = 8388609 / 8388608\<close>. Its exact product
  with \<open>1000000000\<close> is \<open>1000000119.2\<close>, which truncates to \<open>1000000119\<close>; in the
  binade of \<open>2 ^ 29\<close> the binary32 values are 64 apart, the product is rounded up to
  \<open>1000000128\<close>, and that is what the function returns.
\<close>

theorem rel_from_seconds_product_is_rounded:
  "is_float32 (Finite (8388609 / 8388608)) \<and>
   mu_time_rel_from_seconds (Finite (8388609 / 8388608)) = Some 1000000128 \<and>
   trunc_zero (8388609 / 8388608 * 1000000000) = 1000000119"
proof -
  have "nearest32 (8388609 / 8388608) = 8388609 / 8388608"
    by (rule nearest32_exact [of 0 _ 8388609]) simp_all
  then have a: "is_float32 (Finite (8388609 / 8388608))"
    by (simp add: round32_def)
  define y :: real where "y = 8388609 / 8388608 * 1000000000"
  have "round_even (y / (2 ^ 29 / 2 ^ 23)) = 15625002"
    by (simp add: y_def round_even_def)
  then have "nearest32 y = of_int 15625002 * (2 ^ 29 / 2 ^ 23)"
    by (rule nearest32_eval [rotated 2]) (simp_all add: y_def)
  then have "nearest32 y = 1000000128" by simp
  then have "round32 y = Finite 1000000128"
    by (simp add: round32_def)
  then have "float_to_int64 (round32 y) = Some 1000000128"
    by (simp add: trunc_zero_def)
  then have b: "mu_time_rel_from_seconds (Finite (8388609 / 8388608)) = Some 1000000128"
    by (simp only: from_seconds_finite y_def)
  have c: "trunc_zero (8388609 / 8388608 * 1000000000) = 1000000119"
    by (simp add: trunc_zero_def)
  show ?thesis using a b c by simp
qed

text \<open>Outside the range of \<^verbatim>\<open>int64_t\<close>, and for an infinity or a NaN, the cast has no
  defined result.\<close>

lemma from_seconds_undefined:
  "mu_time_rel_from_seconds NaN = None \<and>
   mu_time_rel_from_seconds PlusInf = None \<and>
   mu_time_rel_from_seconds MinusInf = None"
  by (simp add: mu_time_rel_from_seconds_def float_of_int_1e9)

end
